theory Spec2Isabelle
  imports Main "HOL-Library.AList"
begin

section \<open>The feed scheduler of rss-amplifier\<close>

text \<open>
  A shallow embedding of \<^verbatim>\<open>FeedScheduler\<close> (feed-scheduler.js) and of the parts of
  \<^verbatim>\<open>FeedManager\<close> (src/feed-manager.js) it shares.  Conventions of the embedding:

  \<^item> A JavaScript \<^verbatim>\<open>Map\<close> is an association list in insertion order; \<^verbatim>\<open>set\<close> replaces the
    value of a present key in place and appends an absent one.
  \<^item> A time is the number of milliseconds since the epoch; a stored ISO string is
    identified with the instant it renders.  A \<^verbatim>\<open>Date\<close> is an \<open>int option\<close>, \<open>None\<close> being
    the Invalid Date, on which \<^verbatim>\<open>toISOString\<close> throws a RangeError; a time value beyond
    8.64e15 milliseconds on either side of the epoch makes the Invalid Date.
  \<^item> Every operation takes the scheduler state and returns its result paired with the
    new state.  An operation runs to completion before the next one starts, and all
    clock readings of one retry attempt are one instant \<open>now\<close>.
  \<^item> \<^verbatim>\<open>saveScheduledFeeds\<close> only writes a file and swallows its own errors; it does not
    change the state and is left out.
  \<^item> Values have the type their field documents (a string, a number, a boolean);
    numbers are integers.
\<close>

subsection \<open>Feed identifiers\<close>

definition base64_alphabet :: string where
  "base64_alphabet = ''ABCDEFGHIJKLMNOPQRSTUVWXYZabcdefghijklmnopqrstuvwxyz0123456789+/''"

definition b64 :: "nat \<Rightarrow> char" where
  "b64 n = base64_alphabet ! n"

text \<open>\<^verbatim>\<open>Buffer.toString('base64')\<close> on the bytes of the buffer: three bytes give four
  digits, a last group of one or two bytes is padded with \<^verbatim>\<open>=\<close>.\<close>

fun base64 :: "nat list \<Rightarrow> string" where
  "base64 [] = []"
| "base64 [a] = [b64 (a div 4), b64 ((a mod 4) * 16), CHR ''='', CHR ''='']"
| "base64 [a, b] =
     [b64 (a div 4), b64 ((a mod 4) * 16 + b div 16), b64 ((b mod 16) * 4), CHR ''='']"
| "base64 (a # b # c # rest) =
     [b64 (a div 4), b64 ((a mod 4) * 16 + b div 16),
      b64 ((b mod 16) * 4 + c div 64), b64 (c mod 64)] @ base64 rest"

text \<open>The characters the regular expression \<^verbatim>\<open>[^a-zA-Z0-9]\<close> does not match.\<close>

definition alnum :: "char \<Rightarrow> bool" where
  "alnum c = (let n = (of_char c :: nat) in
     (97 \<le> n \<and> n \<le> 122) \<or> (65 \<le> n \<and> n \<le> 90) \<or> (48 \<le> n \<and> n \<le> 57))"

text \<open>\<^verbatim>\<open>FeedScheduler.generateFeedId\<close>; the URL is given by its UTF-8 bytes, which is what
  \<^verbatim>\<open>Buffer.from(url)\<close> holds.\<close>

definition generateFeedId :: "string \<Rightarrow> string" where
  "generateFeedId url = filter alnum (base64 (map of_char url))"

text \<open>\<^verbatim>\<open>FeedManager.generateFeedId\<close> (src/feed-manager.js), commented there
  ``Use full base64 encoding to ensure uniqueness''.\<close>

definition FeedManager_generateFeedId :: "string \<Rightarrow> string" where
  "FeedManager_generateFeedId url = filter alnum (base64 (map of_char url))"

subsection \<open>Platform functions\<close>

text \<open>
  What the scheduler takes from node-cron and from the JavaScript runtime is a parameter
  of the model.  \<open>cron_validate\<close> is \<^verbatim>\<open>cron.validate\<close>; node-cron 3 defines it as ``the
  pattern check of \<^verbatim>\<open>cron.schedule\<close> does not throw'', so the same predicate tells whether
  \<^verbatim>\<open>cron.schedule\<close> returns a task.  \<open>parseInt\<close> is the runtime's, \<open>None\<close> being NaN.
  \<open>next_local_midnight\<close> is the \<^verbatim>\<open>setDate\<close>/\<^verbatim>\<open>setHours\<close> arithmetic in the local time zone.
\<close>

record platform =
  cron_validate :: "string \<Rightarrow> bool"
  parseInt :: "string \<Rightarrow> int option"
  next_local_midnight :: "int \<Rightarrow> int"

fun split :: "char \<Rightarrow> string \<Rightarrow> string list" where
  "split sep [] = [[]]"
| "split sep (c # cs) =
     (if c = sep then [] # split sep cs
      else (case split sep cs of [] \<Rightarrow> [[c]] | w # ws \<Rightarrow> (c # w) # ws))"

definition startsWith :: "string \<Rightarrow> string \<Rightarrow> bool" where
  "startsWith s p = (take (length p) s = p)"

fun join :: "string \<Rightarrow> string list \<Rightarrow> string" where
  "join sep [] = []"
| "join sep [x] = x"
| "join sep (x # y # ys) = x @ sep @ join sep (y # ys)"

record validation =
  valid :: bool
  errors :: "string list"

definition validateCronExpression :: "platform \<Rightarrow> string \<Rightarrow> validation" where
  "validateCronExpression P expression =
     (if expression = [] then
        \<lparr>valid = False, errors = [''Cron expression is required and must be a string'']\<rparr>
      else
        (let errors = (if cron_validate P expression then []
                       else [''Invalid cron expression format''])
         in \<lparr>valid = (length errors = 0), errors = errors\<rparr>))"

text \<open>\<^verbatim>\<open>new Date(t)\<close> for a number \<open>t\<close>: the time value is kept when it lies within
  8.64e15 milliseconds of the epoch, and the Date is invalid otherwise.\<close>

definition newDate :: "int \<Rightarrow> int option" where
  "newDate t = (if \<bar>t\<bar> \<le> 8640000000000000 then Some t else None)"

text \<open>\<^verbatim>\<open>getNextRunTime\<close>, with the clock reading \<open>now\<close> made a parameter.  A missing
  field makes \<^verbatim>\<open>substring\<close> throw inside the \<^verbatim>\<open>try\<close>, whose handler answers one hour
  from now.\<close>

definition getNextRunTime :: "platform \<Rightarrow> string \<Rightarrow> int \<Rightarrow> int option" where
  "getNextRunTime P cronExpression now =
     (if startsWith cronExpression ''*/'' then
        (case split CHR '' '' cronExpression of
           f0 # _ \<Rightarrow>
             (case parseInt P (drop 2 f0) of
                None \<Rightarrow> None
              | Some minutes \<Rightarrow> newDate (now + minutes * 60000))
         | _ \<Rightarrow> newDate (now + 3600000))
      else if startsWith cronExpression ''0 */'' then
        (case split CHR '' '' cronExpression of
           _ # f1 # _ \<Rightarrow>
             (case parseInt P (drop 2 f1) of
                None \<Rightarrow> None
              | Some hours \<Rightarrow> newDate (now + hours * 3600000))
         | _ \<Rightarrow> newDate (now + 3600000))
      else if cronExpression = ''0 0 * * *'' then
        newDate (next_local_midnight P now)
      else newDate (now + 1800000))"

subsection \<open>Data model\<close>

type_synonym 'v Map = "(string \<times> 'v) list"

abbreviation Map_has :: "'v Map \<Rightarrow> string \<Rightarrow> bool" where
  "Map_has m k \<equiv> (map_of m k \<noteq> None)"

abbreviation Map_get :: "'v Map \<Rightarrow> string \<Rightarrow> 'v option" where
  "Map_get m k \<equiv> map_of m k"

abbreviation Map_set :: "string \<Rightarrow> 'v \<Rightarrow> 'v Map \<Rightarrow> 'v Map" where
  "Map_set k v m \<equiv> AList.update k v m"

abbreviation Map_delete :: "string \<Rightarrow> 'v Map \<Rightarrow> 'v Map" where
  "Map_delete k m \<equiv> AList.delete k m"

abbreviation Map_size :: "'v Map \<Rightarrow> nat" where
  "Map_size m \<equiv> length m"

abbreviation Map_values :: "'v Map \<Rightarrow> 'v list" where
  "Map_values m \<equiv> map snd m"

text \<open>The object \<^verbatim>\<open>scheduledFeed\<close>.  The field \<^verbatim>\<open>id\<close> is \<open>id'\<close> here; \<open>extra\<close> holds the
  keys of the options bag that are none of the nine named ones.\<close>

record ScheduleRecord =
  id' :: string
  url :: string
  title :: string
  interval :: string
  nextRun :: int
  lastRun :: "int option"
  lastSuccess :: "int option"
  failureCount :: int
  enabled :: bool
  extra :: "(string \<times> string) list"

text \<open>The options bag of \<^verbatim>\<open>addFeed\<close>: \<open>None\<close> is an absent key.\<close>

record FeedOptions =
  opt_id :: "string option"
  opt_url :: "string option"
  opt_title :: "string option"
  opt_interval :: "string option"
  opt_nextRun :: "int option"
  opt_lastRun :: "int option option"
  opt_lastSuccess :: "int option option"
  opt_failureCount :: "int option"
  opt_enabled :: "bool option"
  opt_extra :: "(string \<times> string) list"

record EngineStats =
  totalFeeds :: nat
  successfulUpdates :: nat
  failedUpdates :: nat
  lastUpdateTime :: "int option"

text \<open>A task of node-cron as the Job Table holds it: the expression it is bound to,
  whether its timer is running, and the URL its callback fetches.\<close>

record Job =
  expression :: string
  started :: bool
  job_url :: string

record Feed =
  feed_title :: string
  items :: "string list"

datatype import_result = ImportOk Feed | ImportError string

text \<open>The Feed Store collaborator \<^verbatim>\<open>options.feedManager\<close>: its two methods over a state of
  its own.  A call returns a result object or throws.\<close>

datatype store_result = StoreOk string | StoreError string

datatype 'a reply = Returned 'a | Threw string

datatype metadata = FromOptions FeedOptions | FromFeed Feed int

record 'fm feedManager =
  fm_addFeed :: "'fm \<Rightarrow> string \<Rightarrow> metadata \<Rightarrow> store_result reply \<times> 'fm"
  fm_removeFeed :: "'fm \<Rightarrow> string \<Rightarrow> store_result reply \<times> 'fm"

record 'fm SchedulerOptions =
  feedManager :: "'fm feedManager"
  defaultInterval :: string
  retryAttempts :: int
  retryDelay :: int

record 'fm FeedScheduler =
  options :: "'fm SchedulerOptions"
  scheduledFeeds :: "ScheduleRecord Map"
  activeJobs :: "Job Map"
  running :: bool
  paused :: bool
  stats :: EngineStats
  store :: 'fm

datatype AddResult = AddOk string int ScheduleRecord | AddError string

datatype RemoveResult = RemoveOk | RemoveError string

datatype UpdateResult = UpdateOk int | UpdateError string

datatype FetchResult =
    FetchOk Feed nat int
  | FetchError string int
  | FetchUndefined
  | FetchThrew string

text \<open>The options bag of \<^verbatim>\<open>fetchAndUpdateFeed\<close>.\<close>

record FetchOptions =
  opt_retryAttempts :: "int option"
  opt_retryDelay :: "int option"

subsection \<open>Operations\<close>

text \<open>\<^verbatim>\<open>a || b\<close> where \<open>a\<close> is a string or a number that may be absent.\<close>

definition or_string :: "string option \<Rightarrow> string \<Rightarrow> string" where
  "or_string a b = (case a of None \<Rightarrow> b | Some v \<Rightarrow> if v = [] then b else v)"

definition or_number :: "int option \<Rightarrow> int \<Rightarrow> int" where
  "or_number a b = (case a of None \<Rightarrow> b | Some v \<Rightarrow> if v = 0 then b else v)"

text \<open>The object spread \<^verbatim>\<open>{ ...defaults, ...options }\<close>: every key present in the bag
  replaces the default.\<close>

definition spread :: "ScheduleRecord \<Rightarrow> FeedOptions \<Rightarrow> ScheduleRecord" where
  "spread r opts =
     \<lparr>id' = (case opt_id opts of None \<Rightarrow> id' r | Some v \<Rightarrow> v),
      url = (case opt_url opts of None \<Rightarrow> url r | Some v \<Rightarrow> v),
      title = (case opt_title opts of None \<Rightarrow> title r | Some v \<Rightarrow> v),
      interval = (case opt_interval opts of None \<Rightarrow> interval r | Some v \<Rightarrow> v),
      nextRun = (case opt_nextRun opts of None \<Rightarrow> nextRun r | Some v \<Rightarrow> v),
      lastRun = (case opt_lastRun opts of None \<Rightarrow> lastRun r | Some v \<Rightarrow> v),
      lastSuccess = (case opt_lastSuccess opts of None \<Rightarrow> lastSuccess r | Some v \<Rightarrow> v),
      failureCount = (case opt_failureCount opts of None \<Rightarrow> failureCount r | Some v \<Rightarrow> v),
      enabled = (case opt_enabled opts of None \<Rightarrow> enabled r | Some v \<Rightarrow> v),
      extra = opt_extra opts\<rparr>"

text \<open>\<^verbatim>\<open>createCronJob\<close>: \<^verbatim>\<open>createScheduledJob\<close> schedules a started task in UTC; when
  \<^verbatim>\<open>cron.schedule\<close> throws, the handler logs and the Job Table is left as it is.\<close>

definition createCronJob ::
  "platform \<Rightarrow> 'fm FeedScheduler \<Rightarrow> string \<Rightarrow> ScheduleRecord \<Rightarrow> 'fm FeedScheduler" where
  "createCronJob P s feedId scheduledFeed =
     (if cron_validate P (interval scheduledFeed) then
        s\<lparr>activeJobs :=
            Map_set feedId
              \<lparr>expression = interval scheduledFeed, started = True,
               job_url = url scheduledFeed\<rparr>
              (activeJobs s)\<rparr>
      else s)"

definition addFeed ::
  "platform \<Rightarrow> 'fm FeedScheduler \<Rightarrow> string \<Rightarrow> FeedOptions \<Rightarrow> int
     \<Rightarrow> AddResult \<times> 'fm FeedScheduler" where
  "addFeed P s u opts now =
     (let feedId = generateFeedId u;
          ival = or_string (opt_interval opts) (defaultInterval (options s));
          validation = validateCronExpression P ival
      in if \<not> valid validation then
           (AddError (''Invalid cron expression: '' @ join '', '' (errors validation)), s)
         else
           (case fm_addFeed (feedManager (options s)) (store s) u (FromOptions opts) of
              (Threw e, st) \<Rightarrow> (AddError e, s\<lparr>store := st\<rparr>)
            | (Returned (StoreError e), st) \<Rightarrow> (AddError e, s\<lparr>store := st\<rparr>)
            | (Returned (StoreOk _), st) \<Rightarrow>
                (case getNextRunTime P ival now of
                   None \<Rightarrow> (AddError ''Invalid time value'', s\<lparr>store := st\<rparr>)
                 | Some next \<Rightarrow>
                     (let scheduledFeed =
                            spread
                              \<lparr>id' = feedId, url = u, title = or_string (opt_title opts) [],
                               interval = ival, nextRun = next, lastRun = None,
                               lastSuccess = None, failureCount = 0, enabled = True,
                               extra = []\<rparr>
                              opts;
                          s1 = s\<lparr>store := st,
                                 scheduledFeeds := Map_set feedId scheduledFeed (scheduledFeeds s)\<rparr>;
                          s2 = (if running s1 \<and> \<not> paused s1
                                then createCronJob P s1 feedId scheduledFeed else s1);
                          s3 = s2\<lparr>stats := (stats s2)\<lparr>totalFeeds := Map_size (scheduledFeeds s2)\<rparr>\<rparr>
                      in (AddOk feedId next scheduledFeed, s3)))))"

text \<open>\<^verbatim>\<open>removeFeed\<close>.  The value the collaborator returns is not looked at; when the
  collaborator throws, the handler of \<^verbatim>\<open>removeFeed\<close> answers with the message.\<close>

definition removeFeed ::
  "'fm FeedScheduler \<Rightarrow> string \<Rightarrow> RemoveResult \<times> 'fm FeedScheduler" where
  "removeFeed s feedId =
     (if \<not> Map_has (scheduledFeeds s) feedId then
        (RemoveError ''Scheduled feed not found'', s)
      else
        (let s1 = (if Map_has (activeJobs s) feedId
                   then s\<lparr>activeJobs := Map_delete feedId (activeJobs s)\<rparr> else s)
         in case fm_removeFeed (feedManager (options s1)) (store s1) feedId of
              (Threw e, st) \<Rightarrow> (RemoveError e, s1\<lparr>store := st\<rparr>)
            | (Returned _, st) \<Rightarrow>
                (let s2 = s1\<lparr>store := st,
                              scheduledFeeds := Map_delete feedId (scheduledFeeds s1)\<rparr>;
                     s3 = s2\<lparr>stats := (stats s2)\<lparr>totalFeeds := Map_size (scheduledFeeds s2)\<rparr>\<rparr>
                 in (RemoveOk, s3))))"

text \<open>\<^verbatim>\<open>updateFeedSchedule\<close>.  The record is changed in place, so the new interval is
  already stored when \<^verbatim>\<open>toISOString\<close> throws on an Invalid Date.\<close>

definition updateFeedSchedule ::
  "platform \<Rightarrow> 'fm FeedScheduler \<Rightarrow> string \<Rightarrow> string \<Rightarrow> int
     \<Rightarrow> UpdateResult \<times> 'fm FeedScheduler" where
  "updateFeedSchedule P s feedId newInterval now =
     (case Map_get (scheduledFeeds s) feedId of
        None \<Rightarrow> (UpdateError ''Scheduled feed not found'', s)
      | Some scheduledFeed \<Rightarrow>
          (let validation = validateCronExpression P newInterval
           in if \<not> valid validation then
                (UpdateError (''Invalid cron expression: '' @ join '', '' (errors validation)), s)
              else
                (let sf1 = scheduledFeed\<lparr>interval := newInterval\<rparr>
                 in case getNextRunTime P newInterval now of
                      None \<Rightarrow>
                        (UpdateError ''Invalid time value'',
                         s\<lparr>scheduledFeeds := Map_set feedId sf1 (scheduledFeeds s)\<rparr>)
                    | Some next \<Rightarrow>
                        (let sf2 = sf1\<lparr>nextRun := next\<rparr>;
                             s1 = s\<lparr>scheduledFeeds := Map_set feedId sf2 (scheduledFeeds s)\<rparr>;
                             s2 = (if running s1 \<and> \<not> paused s1 then
                                     createCronJob P
                                       (if Map_has (activeJobs s1) feedId
                                        then s1\<lparr>activeJobs := Map_delete feedId (activeJobs s1)\<rparr>
                                        else s1)
                                       feedId sf2
                                   else s1)
                         in (UpdateOk (nextRun sf2), s2)))))"

definition listScheduledFeeds :: "'fm FeedScheduler \<Rightarrow> ScheduleRecord list" where
  "listScheduledFeeds s = Map_values (scheduledFeeds s)"

definition getUpdateStats :: "'fm FeedScheduler \<Rightarrow> EngineStats" where
  "getUpdateStats s = stats s"

definition isRunning :: "'fm FeedScheduler \<Rightarrow> bool" where
  "isRunning s = running s"

definition isPaused :: "'fm FeedScheduler \<Rightarrow> bool" where
  "isPaused s = paused s"

definition start :: "platform \<Rightarrow> 'fm FeedScheduler \<Rightarrow> 'fm FeedScheduler" where
  "start P s =
     (if running s then s
      else fold (\<lambda>(feedId, scheduledFeed) s'.
                   if enabled scheduledFeed then createCronJob P s' feedId scheduledFeed else s')
             (scheduledFeeds s) (s\<lparr>running := True, paused := False\<rparr>))"

definition stop :: "'fm FeedScheduler \<Rightarrow> 'fm FeedScheduler" where
  "stop s =
     (if \<not> running s then s
      else s\<lparr>running := False, paused := False, activeJobs := []\<rparr>)"

definition pause :: "'fm FeedScheduler \<Rightarrow> 'fm FeedScheduler" where
  "pause s =
     (if \<not> running s \<or> paused s then s
      else s\<lparr>paused := True,
             activeJobs := map (\<lambda>(feedId, job). (feedId, job\<lparr>started := False\<rparr>)) (activeJobs s)\<rparr>)"

definition resume :: "'fm FeedScheduler \<Rightarrow> 'fm FeedScheduler" where
  "resume s =
     (if \<not> running s \<or> \<not> paused s then s
      else s\<lparr>paused := False,
             activeJobs := map (\<lambda>(feedId, job). (feedId, job\<lparr>started := True\<rparr>)) (activeJobs s)\<rparr>)"

subsection \<open>The Fetch-and-Retry routine\<close>

text \<open>
  The two collaborators of one attempt are \<^verbatim>\<open>importRSSFeed\<close>, which returns a result
  object and never throws (its whole body is inside a \<^verbatim>\<open>try\<close>), and the Feed Store.
  What \<^verbatim>\<open>importRSSFeed\<close> answers at attempt \<open>i\<close> is \<open>fetcher i\<close>, and the clock reads
  \<open>clock i\<close> during attempt \<open>i\<close>.
\<close>

text \<open>The \<^verbatim>\<open>try\<close> block of one attempt: \<open>Inr\<close> is the value it returns, \<open>Inl\<close> the
  message of the error it throws.  The record is changed in place, so the fields
  assigned before a throw of \<^verbatim>\<open>toISOString\<close> stay assigned.\<close>

definition try_attempt ::
  "platform \<Rightarrow> 'fm FeedScheduler \<Rightarrow> string \<Rightarrow> import_result \<Rightarrow> int \<Rightarrow> int
     \<Rightarrow> (string + FetchResult) \<times> 'fm FeedScheduler" where
  "try_attempt P s u importResult now attempt =
     (case importResult of
        ImportError e \<Rightarrow> (Inl e, s)
      | ImportOk feed \<Rightarrow>
          (let feedId = generateFeedId u
           in case fm_addFeed (feedManager (options s)) (store s) u (FromFeed feed now) of
                (Threw e, st) \<Rightarrow> (Inl e, s\<lparr>store := st\<rparr>)
              | (Returned (StoreError e), st) \<Rightarrow> (Inl e, s\<lparr>store := st\<rparr>)
              | (Returned (StoreOk _), st) \<Rightarrow>
                  (let s1 = s\<lparr>store := st,
                                stats := (stats s)
                                  \<lparr>successfulUpdates := successfulUpdates (stats s) + 1,
                                   lastUpdateTime := Some now\<rparr>\<rparr>
                   in case Map_get (scheduledFeeds s1) feedId of
                        None \<Rightarrow> (Inr (FetchOk feed (length (items feed)) attempt), s1)
                      | Some scheduledFeed \<Rightarrow>
                          (let sf1 = scheduledFeed
                                 \<lparr>lastRun := Some now, lastSuccess := Some now,
                                  failureCount := 0\<rparr>
                           in case getNextRunTime P (interval sf1) now of
                                None \<Rightarrow>
                                  (Inl ''Invalid time value'',
                                   s1\<lparr>scheduledFeeds :=
                                        Map_set feedId sf1 (scheduledFeeds s1)\<rparr>)
                              | Some next \<Rightarrow>
                                  (Inr (FetchOk feed (length (items feed)) attempt),
                                   s1\<lparr>scheduledFeeds :=
                                        Map_set feedId (sf1\<lparr>nextRun := next\<rparr>)
                                          (scheduledFeeds s1)\<rparr>)))))"

text \<open>The branch \<^verbatim>\<open>attempt === maxRetries\<close> of the \<^verbatim>\<open>catch\<close> handler.\<close>

definition final_failure ::
  "platform \<Rightarrow> 'fm FeedScheduler \<Rightarrow> string \<Rightarrow> string \<Rightarrow> int \<Rightarrow> int
     \<Rightarrow> FetchResult \<times> 'fm FeedScheduler" where
  "final_failure P s u e now maxRetries =
     (let s1 = s\<lparr>stats := (stats s)\<lparr>failedUpdates := failedUpdates (stats s) + 1\<rparr>\<rparr>;
          feedId = generateFeedId u
      in case Map_get (scheduledFeeds s1) feedId of
           None \<Rightarrow> (FetchError e maxRetries, s1)
         | Some scheduledFeed \<Rightarrow>
             (let sf1 = scheduledFeed
                    \<lparr>lastRun := Some now, failureCount := failureCount scheduledFeed + 1\<rparr>
              in case getNextRunTime P (interval sf1) now of
                   None \<Rightarrow>
                     (FetchThrew ''Invalid time value'',
                      s1\<lparr>scheduledFeeds := Map_set feedId sf1 (scheduledFeeds s1)\<rparr>)
                 | Some next \<Rightarrow>
                     (FetchError e maxRetries,
                      s1\<lparr>scheduledFeeds :=
                           Map_set feedId (sf1\<lparr>nextRun := next\<rparr>) (scheduledFeeds s1)\<rparr>)))"

text \<open>The loop \<^verbatim>\<open>for (let attempt = 1; attempt <= maxRetries; attempt++)\<close>.  Falling out
  of the loop, the routine returns \<^verbatim>\<open>undefined\<close>.\<close>

function fetch_loop ::
  "platform \<Rightarrow> string \<Rightarrow> (int \<Rightarrow> import_result) \<Rightarrow> (int \<Rightarrow> int) \<Rightarrow> int \<Rightarrow> int
     \<Rightarrow> 'fm FeedScheduler \<Rightarrow> FetchResult \<times> 'fm FeedScheduler" where
  "fetch_loop P u fetcher clock maxRetries attempt s =
     (if attempt \<le> maxRetries then
        (case try_attempt P s u (fetcher attempt) (clock attempt) attempt of
           (Inr result, s') \<Rightarrow> (result, s')
         | (Inl e, s') \<Rightarrow>
             if attempt = maxRetries then final_failure P s' u e (clock attempt) maxRetries
             else fetch_loop P u fetcher clock maxRetries (attempt + 1) s')
      else (FetchUndefined, s))"
  by pat_completeness auto
termination
  by (relation "measure (\<lambda>(P, u, fetcher, clock, maxRetries, attempt, s).
        nat (maxRetries + 1 - attempt))") auto

declare fetch_loop.simps [simp del]

definition fetchAndUpdateFeed ::
  "platform \<Rightarrow> 'fm FeedScheduler \<Rightarrow> string \<Rightarrow> FetchOptions
     \<Rightarrow> (int \<Rightarrow> import_result) \<Rightarrow> (int \<Rightarrow> int)
     \<Rightarrow> FetchResult \<times> 'fm FeedScheduler" where
  "fetchAndUpdateFeed P s u opts fetcher clock =
     (let maxRetries = or_number (opt_retryAttempts opts) (retryAttempts (options s))
      in fetch_loop P u fetcher clock maxRetries 1 s)"

text \<open>The callback \<^verbatim>\<open>createCronJob\<close> wires to a task, run when the task of \<open>feedId\<close>
  fires: nothing while the engine is paused, the routine with no options otherwise.
  A task that is not in the Job Table or whose timer is stopped does not fire.
  \<^verbatim>\<open>createScheduledJob\<close> catches and logs whatever the callback throws, so only the
  state the routine leaves matters.\<close>

definition fire ::
  "platform \<Rightarrow> 'fm FeedScheduler \<Rightarrow> string \<Rightarrow> (int \<Rightarrow> import_result) \<Rightarrow> (int \<Rightarrow> int)
     \<Rightarrow> 'fm FeedScheduler" where
  "fire P s feedId fetcher clock =
     (case Map_get (activeJobs s) feedId of
        None \<Rightarrow> s
      | Some job \<Rightarrow>
          if \<not> started job then s
          else if paused s then s
          else snd (fetchAndUpdateFeed P s (job_url job)
                      \<lparr>opt_retryAttempts = None, opt_retryDelay = None\<rparr> fetcher clock))"

definition close :: "'fm FeedScheduler \<Rightarrow> 'fm FeedScheduler" where
  "close s = stop s"

subsection \<open>Construction and the bundled Feed Store\<close>

text \<open>The constructor, when no \<^verbatim>\<open>scheduled-feeds.json\<close> exists yet.  An option that is
  absent takes its default; the closing \<^verbatim>\<open>...options\<close> stores a present one as given.\<close>

definition new_FeedScheduler ::
  "'fm feedManager \<Rightarrow> 'fm \<Rightarrow> string option \<Rightarrow> int option \<Rightarrow> int option
     \<Rightarrow> 'fm FeedScheduler" where
  "new_FeedScheduler fm st optDefaultInterval optRetryAttempts optRetryDelay =
     \<lparr>options =
        \<lparr>feedManager = fm,
         defaultInterval =
           (case optDefaultInterval of None \<Rightarrow> ''*/30 * * * *'' | Some v \<Rightarrow> v),
         retryAttempts = (case optRetryAttempts of None \<Rightarrow> 3 | Some v \<Rightarrow> v),
         retryDelay = (case optRetryDelay of None \<Rightarrow> 5000 | Some v \<Rightarrow> v)\<rparr>,
      scheduledFeeds = [], activeJobs = [], running = False, paused = False,
      stats = \<lparr>totalFeeds = 0, successfulUpdates = 0, failedUpdates = 0,
               lastUpdateTime = None\<rparr>,
      store = st\<rparr>"

text \<open>\<^verbatim>\<open>FeedManager.addFeed\<close> and \<^verbatim>\<open>FeedManager.removeFeed\<close> of src/feed-manager.js over
  the map \<^verbatim>\<open>feeds\<close>, whose entry keeps the URL and the metadata it was given.\<close>

definition FeedManager_addFeed ::
  "(string \<times> metadata) Map \<Rightarrow> string \<Rightarrow> metadata
     \<Rightarrow> store_result reply \<times> (string \<times> metadata) Map" where
  "FeedManager_addFeed feeds u md =
     (let feedId = FeedManager_generateFeedId u
      in (Returned (StoreOk feedId), Map_set feedId (u, md) feeds))"

definition FeedManager_removeFeed ::
  "(string \<times> metadata) Map \<Rightarrow> string \<Rightarrow> store_result reply \<times> (string \<times> metadata) Map" where
  "FeedManager_removeFeed feeds feedId =
     (if \<not> Map_has feeds feedId then (Returned (StoreError ''Feed not found''), feeds)
      else (Returned (StoreOk []), Map_delete feedId feeds))"

definition FeedManager :: "(string \<times> metadata) Map feedManager" where
  "FeedManager = \<lparr>fm_addFeed = FeedManager_addFeed, fm_removeFeed = FeedManager_removeFeed\<rparr>"

text \<open>An injected Feed Store that answers each call with the next reply of a script and
  accepts once the script is used up.\<close>

definition scripted_store :: "store_result reply list feedManager" where
  "scripted_store =
     \<lparr>fm_addFeed = (\<lambda>script u md.
        case script of [] \<Rightarrow> (Returned (StoreOk (generateFeedId u)), [])
                     | r # rs \<Rightarrow> (r, rs)),
      fm_removeFeed = (\<lambda>script feedId.
        case script of [] \<Rightarrow> (Returned (StoreOk []), [])
                     | r # rs \<Rightarrow> (r, rs))\<rparr>"

text \<open>A platform to evaluate examples on: node-cron accepts the four listed
  expressions among those tried here (it puts no bound on the size of a step),
  \<open>parseInt\<close> reads leading decimal digits, and the local time zone is UTC.\<close>

definition digit :: "char \<Rightarrow> bool" where
  "digit c = (48 \<le> (of_char c :: nat) \<and> (of_char c :: nat) \<le> 57)"

definition decimal :: "string \<Rightarrow> int option" where
  "decimal str =
     (let ds = takeWhile digit str
      in if ds = [] then None
         else Some (fold (\<lambda>c acc. acc * 10 + (int (of_char c) - 48)) ds 0))"

definition utc_platform :: platform where
  "utc_platform =
     \<lparr>cron_validate =
        (\<lambda>e. e = ''*/5 * * * *'' \<or> e = ''*/10 * * * *'' \<or> e = ''*/30 * * * *''
           \<or> e = ''*/200000000000 * * * *''),
      parseInt = decimal,
      next_local_midnight = (\<lambda>now. (now div 86400000 + 1) * 86400000)\<rparr>"

subsection \<open>Sequences of operations\<close>

text \<open>The calls a client or a firing task can make, each with what the environment
  answers during the call, and their effect on the scheduler.\<close>

datatype operation =
    AddFeed string FeedOptions int
  | RemoveFeed string
  | UpdateFeedSchedule string string int
  | Start
  | Stop
  | Pause
  | Resume
  | Close
  | FetchAndUpdateFeed string FetchOptions "int \<Rightarrow> import_result" "int \<Rightarrow> int"
  | Fire string "int \<Rightarrow> import_result" "int \<Rightarrow> int"

fun perform :: "platform \<Rightarrow> operation \<Rightarrow> 'fm FeedScheduler \<Rightarrow> 'fm FeedScheduler" where
  "perform P (AddFeed u opts now) s = snd (addFeed P s u opts now)"
| "perform P (RemoveFeed feedId) s = snd (removeFeed s feedId)"
| "perform P (UpdateFeedSchedule feedId newInterval now) s =
     snd (updateFeedSchedule P s feedId newInterval now)"
| "perform P Start s = start P s"
| "perform P Stop s = stop s"
| "perform P Pause s = pause s"
| "perform P Resume s = resume s"
| "perform P Close s = close s"
| "perform P (FetchAndUpdateFeed u opts fetcher clock) s =
     snd (fetchAndUpdateFeed P s u opts fetcher clock)"
| "perform P (Fire feedId fetcher clock) s = fire P s feedId fetcher clock"

definition run :: "platform \<Rightarrow> operation list \<Rightarrow> 'fm FeedScheduler \<Rightarrow> 'fm FeedScheduler" where
  "run P ops s = fold (perform P) ops s"

text \<open>A reply of the Feed Store that is not a result object with \<^verbatim>\<open>success\<close> set.\<close>

definition registration_fails :: "store_result reply \<Rightarrow> bool" where
  "registration_fails r = (case r of Returned (StoreOk _) \<Rightarrow> False | _ \<Rightarrow> True)"

subsection \<open>Example data\<close>

definition no_options :: FeedOptions where
  "no_options =
     \<lparr>opt_id = None, opt_url = None, opt_title = None, opt_interval = None,
      opt_nextRun = None, opt_lastRun = None, opt_lastSuccess = None,
      opt_failureCount = None, opt_enabled = None, opt_extra = []\<rparr>"

definition every_5_minutes :: FeedOptions where
  "every_5_minutes = no_options\<lparr>opt_interval := Some ''*/5 * * * *''\<rparr>"

definition no_fetch_options :: FetchOptions where
  "no_fetch_options = \<lparr>opt_retryAttempts = None, opt_retryDelay = None\<rparr>"

definition feed_a :: string where
  "feed_a = ''https://a.example/feed.xml''"

definition id_a :: string where
  "id_a = ''aHR0cHM6Ly9hLmV4YW1wbGUvZmVlZC54bWw''"

text \<open>A scheduler as \<^verbatim>\<open>new FeedScheduler()\<close> builds it, with the bundled Feed Store.\<close>

definition fresh :: "(string \<times> metadata) Map FeedScheduler" where
  "fresh = new_FeedScheduler FeedManager [] None None None"

definition invalid_interval :: FeedOptions where
  "invalid_interval = no_options\<lparr>opt_interval := Some ''invalid''\<rparr>"

definition all_options :: FeedOptions where
  "all_options =
     \<lparr>opt_id = Some ''custom-id'', opt_url = Some ''https://b.example/rss'',
      opt_title = Some ''B'', opt_interval = Some ''*/5 * * * *'', opt_nextRun = Some 42,
      opt_lastRun = Some (Some 7), opt_lastSuccess = Some (Some 6),
      opt_failureCount = Some 7, opt_enabled = Some False,
      opt_extra = [(''category'', ''tech'')]\<rparr>"

text \<open>The record \<^verbatim>\<open>addFeed(feed_a, {interval: '*/5 * * * *'})\<close> stores at time 0.\<close>

definition record_a :: ScheduleRecord where
  "record_a =
     \<lparr>id' = id_a, url = feed_a, title = [], interval = ''*/5 * * * *'',
      nextRun = 300000, lastRun = None, lastSuccess = None, failureCount = 0,
      enabled = True, extra = []\<rparr>"

definition one_feed :: "(string \<times> metadata) Map FeedScheduler" where
  "one_feed = run utc_platform [AddFeed feed_a every_5_minutes 0] fresh"


definition added_while_paused :: "(string \<times> metadata) Map FeedScheduler" where
  "added_while_paused = run utc_platform [Start, Pause, AddFeed feed_a every_5_minutes 0] fresh"




text \<open>A scheduler built with \<^verbatim>\<open>retryAttempts: 0\<close>, holding one feed.\<close>

definition no_retries :: "(string \<times> metadata) Map FeedScheduler" where
  "no_retries =
     run utc_platform [AddFeed feed_a every_5_minutes 0]
       (new_FeedScheduler FeedManager [] None (Some 0) None)"

text \<open>A scheduler whose one feed was given, by an \<^verbatim>\<open>updateFeedSchedule\<close> that failed
  on \<^verbatim>\<open>toISOString\<close>, an interval with a next run beyond the last Date.\<close>

definition far_future :: "(string \<times> metadata) Map FeedScheduler" where
  "far_future =
     run utc_platform
       [AddFeed feed_a every_5_minutes 0,
        UpdateFeedSchedule id_a ''*/200000000000 * * * *'' 0]
       fresh"

text \<open>A scheduler over an injected Feed Store that accepts the registration of the
  feed and refuses the update that follows.\<close>

definition refusing_updates :: "store_result reply list FeedScheduler" where
  "refusing_updates =
     run utc_platform [AddFeed feed_a every_5_minutes 0]
       (new_FeedScheduler scripted_store
          [Returned (StoreOk id_a), Returned (StoreError ''store full'')] None None None)"

definition two_attempts :: FetchOptions where
  "two_attempts = \<lparr>opt_retryAttempts = Some 2, opt_retryDelay = None\<rparr>"

text \<open>Fetchers and a clock: attempt \<open>i\<close> happens at second \<open>i\<close>.\<close>

definition always_failing :: "int \<Rightarrow> import_result" where
  "always_failing i = ImportError ''timeout''"

definition feed_of_a :: Feed where
  "feed_of_a = \<lparr>feed_title = ''A'', items = [''post'']\<rparr>"

definition fails_twice :: "int \<Rightarrow> import_result" where
  "fails_twice i = (if i \<le> 2 then ImportError ''timeout'' else ImportOk feed_of_a)"

definition fails_once :: "int \<Rightarrow> import_result" where
  "fails_once i = (if i \<le> 1 then ImportError ''timeout'' else ImportOk feed_of_a)"

definition seconds :: "int \<Rightarrow> int" where
  "seconds i = i * 1000"

subsection \<open>Comparing the update counters of two states\<close>

definition counters_le :: "'fm FeedScheduler \<Rightarrow> 'fm FeedScheduler \<Rightarrow> bool" where
  "counters_le s s' \<longleftrightarrow>
     successfulUpdates (stats s) \<le> successfulUpdates (stats s')
     \<and> failedUpdates (stats s) \<le> failedUpdates (stats s')"

section \<open>Properties\<close>

subsection \<open>Evaluating the examples\<close>

lemmas scheduler_simps =
  addFeed_def removeFeed_def updateFeedSchedule_def start_def stop_def pause_def resume_def
  close_def createCronJob_def fetchAndUpdateFeed_def try_attempt_def final_failure_def
  fire_def run_def validateCronExpression_def getNextRunTime_def newDate_def startsWith_def
  or_string_def or_number_def spread_def listScheduledFeeds_def getUpdateStats_def
  isRunning_def isPaused_def registration_fails_def Let_def

lemmas example_simps =
  utc_platform_def decimal_def digit_def fresh_def new_FeedScheduler_def FeedManager_def
  FeedManager_addFeed_def FeedManager_removeFeed_def scripted_store_def no_options_def
  every_5_minutes_def invalid_interval_def all_options_def no_fetch_options_def
  record_a_def always_failing_def fails_twice_def fails_once_def seconds_def feed_of_a_def
  two_attempts_def

lemma id_of_feed_a:
  "generateFeedId feed_a = id_a" "FeedManager_generateFeedId feed_a = id_a"
  by (simp_all add: generateFeedId_def FeedManager_generateFeedId_def feed_a_def id_a_def
      alnum_def b64_def base64_alphabet_def)

lemma one_feed_fields:
  "scheduledFeeds one_feed = [(id_a, record_a)]"
  "activeJobs one_feed = []"
  "running one_feed = False"
  "paused one_feed = False"
  "stats one_feed = \<lparr>totalFeeds = 1, successfulUpdates = 0, failedUpdates = 0,
                      lastUpdateTime = None\<rparr>"
  "options one_feed = options fresh"
  "store one_feed = [(id_a, feed_a, FromOptions every_5_minutes)]"
  by (simp_all add: one_feed_def scheduler_simps example_simps id_of_feed_a)


lemma added_while_paused_fields:
  "scheduledFeeds added_while_paused = [(id_a, record_a)]"
  "activeJobs added_while_paused = []"
  "running added_while_paused = True"
  "paused added_while_paused = True"
  by (simp_all add: added_while_paused_def scheduler_simps example_simps id_of_feed_a)


lemma far_future_fields:
  "scheduledFeeds far_future = [(id_a, record_a\<lparr>interval := ''*/200000000000 * * * *''\<rparr>)]"
  "options far_future = options fresh"
  "store far_future = [(id_a, feed_a, FromOptions every_5_minutes)]"
  "stats far_future = \<lparr>totalFeeds = 1, successfulUpdates = 0, failedUpdates = 0,
                        lastUpdateTime = None\<rparr>"
  by (simp_all add: far_future_def scheduler_simps example_simps id_of_feed_a)

lemma no_retries_fields:
  "scheduledFeeds no_retries = [(id_a, record_a)]"
  "retryAttempts (options no_retries) = 0"
  by (simp_all add: no_retries_def scheduler_simps example_simps id_of_feed_a)

lemma refusing_updates_fields:
  "scheduledFeeds refusing_updates = [(id_a, record_a)]"
  "store refusing_updates = [Returned (StoreError ''store full'')]"
  "feedManager (options refusing_updates) = scripted_store"
  "retryAttempts (options refusing_updates) = 3"
  "stats refusing_updates = \<lparr>totalFeeds = 1, successfulUpdates = 0, failedUpdates = 0,
                              lastUpdateTime = None\<rparr>"
  by (simp_all add: refusing_updates_def scheduler_simps example_simps id_of_feed_a)


subsection \<open>Feed identifiers\<close>

text \<open>
  C4.  Feed-id generation is meant to be an injective function of the URL, so that a
  second URL never takes over the record of a first one.  The identifier is a function
  of the URL, and the scheduler and the Feed Store compute the same one; it is not
  injective: stripping \<^verbatim>\<open>+\<close>, \<^verbatim>\<open>/\<close> and \<^verbatim>\<open>=\<close> from the base64 text identifies
  \<^verbatim>\<open>https://a.example/feed.xml\<close> with the same URL followed by \<^verbatim>\<open>?\<close>, and adding the
  second to a scheduler that holds the first leaves one record, the second's.
\<close>

theorem generateFeedId_collision:
  "feed_a \<noteq> feed_a @ ''?''
   \<and> generateFeedId feed_a = id_a
   \<and> generateFeedId (feed_a @ ''?'') = id_a
   \<and> FeedManager_generateFeedId feed_a = id_a
   \<and> FeedManager_generateFeedId (feed_a @ ''?'') = id_a
   \<and> map url (listScheduledFeeds
         (run utc_platform [AddFeed (feed_a @ ''?'') every_5_minutes 1000] one_feed))
       = [feed_a @ ''?'']"
proof -
  have collide: "generateFeedId (feed_a @ ''?'') = id_a"
    "FeedManager_generateFeedId (feed_a @ ''?'') = id_a"
    by (simp_all add: generateFeedId_def FeedManager_generateFeedId_def feed_a_def id_a_def
        alnum_def b64_def base64_alphabet_def)
  have "map url (listScheduledFeeds
         (run utc_platform [AddFeed (feed_a @ ''?'') every_5_minutes 1000] one_feed))
       = [feed_a @ ''?'']"
    by (simp add: scheduler_simps example_simps one_feed_fields collide)
  with collide id_of_feed_a show ?thesis by simp
qed

subsection \<open>The Fetch-and-Retry routine\<close>

lemma try_attempt_ImportError:
  "try_attempt P s u (ImportError e) now attempt = (Inl e, s)"
  by (simp add: try_attempt_def)

text \<open>Attempts whose import fails and that are not the last one are passed over
  without a trace.\<close>

lemma fetch_loop_failed_attempts:
  assumes "\<forall>i. a \<le> i \<and> i \<le> k \<longrightarrow> fetcher i = ImportError (err i)"
    and "a \<le> k + 1" and "k < N"
  shows "fetch_loop P u fetcher clock N a s = fetch_loop P u fetcher clock N (k + 1) s"
  using assms
proof (induction "nat (k + 1 - a)" arbitrary: a)
  case 0
  then have "a = k + 1" by simp
  then show ?case by simp
next
  case (Suc n)
  then have a: "a \<le> k" "a < N" "a \<noteq> N" by auto
  with Suc.prems have f: "fetcher a = ImportError (err a)" by simp
  have "fetch_loop P u fetcher clock N a s = fetch_loop P u fetcher clock N (a + 1) s"
    using a f by (subst fetch_loop.simps) (simp add: try_attempt_ImportError)
  also have "\<dots> = fetch_loop P u fetcher clock N (k + 1) s"
    using Suc.hyps Suc.prems a by (intro Suc.hyps(1)) auto
  finally show ?case .
qed

lemma fetch_loop_last_attempt_fails:
  assumes "fetcher N = ImportError e"
  shows "fetch_loop P u fetcher clock N N s = final_failure P s u e (clock N) N"
  using assms by (subst fetch_loop.simps) (simp add: try_attempt_ImportError)

lemma final_failure_failureCount:
  assumes "Map_get (scheduledFeeds s) (generateFeedId u) = Some r"
  shows "map_option failureCount
           (Map_get (scheduledFeeds (snd (final_failure P s u e now maxRetries)))
              (generateFeedId u))
         = Some (failureCount r + 1)"
  using assms by (simp add: final_failure_def Let_def update_conv' split: option.splits)

text \<open>
  Where the claim C1 holds.  Let the ScheduleRecord of the URL exist, let \<open>N \<ge> 1\<close> be
  the number of allowed attempts (\<^verbatim>\<open>options.retryAttempts || this.options.retryAttempts\<close>),
  and let the fetcher fail on every attempt \<open>1..N\<close>.  Then over the whole invocation
  \<^verbatim>\<open>failureCount\<close> grows by exactly one, every attempt before the last throws and leaves
  the state as it was, and, when the next run time computed from the record's interval
  is a valid date, \<^verbatim>\<open>fetchAndUpdateFeed\<close> returns the failure result with
  \<^verbatim>\<open>attempts = N\<close> and has changed \<^verbatim>\<open>failedUpdates\<close> and the record and nothing else.
\<close>

lemma fetch_all_attempts_fail:
  assumes "Map_get (scheduledFeeds s) (generateFeedId u) = Some r"
    and "N = or_number (opt_retryAttempts opts) (retryAttempts (options s))"
    and "1 \<le> N"
    and "\<forall>i. 1 \<le> i \<and> i \<le> N \<longrightarrow> fetcher i = ImportError (err i)"
  shows "map_option failureCount
           (Map_get (scheduledFeeds (snd (fetchAndUpdateFeed P s u opts fetcher clock)))
              (generateFeedId u))
           = Some (failureCount r + 1)
       \<and> (\<forall>i. 1 \<le> i \<and> i < N \<longrightarrow>
             try_attempt P s u (fetcher i) (clock i) i = (Inl (err i), s))
       \<and> (\<forall>next. getNextRunTime P (interval r) (clock N) = Some next \<longrightarrow>
             fetchAndUpdateFeed P s u opts fetcher clock
               = (FetchError (err N) N,
                  s\<lparr>stats := (stats s)\<lparr>failedUpdates := failedUpdates (stats s) + 1\<rparr>,
                    scheduledFeeds :=
                      Map_set (generateFeedId u)
                        (r\<lparr>lastRun := Some (clock N), failureCount := failureCount r + 1,
                           nextRun := next\<rparr>)
                        (scheduledFeeds s)\<rparr>))"
proof -
  have "\<forall>i. 1 \<le> i \<and> i \<le> N - 1 \<longrightarrow> fetcher i = ImportError (err i)"
    using assms(4) by simp
  then have "fetch_loop P u fetcher clock N 1 s = fetch_loop P u fetcher clock N (N - 1 + 1) s"
    using assms(3) by (intro fetch_loop_failed_attempts) auto
  also have "\<dots> = final_failure P s u (err N) (clock N) N"
    using assms(3,4) by (simp add: fetch_loop_last_attempt_fails)
  finally have final: "fetchAndUpdateFeed P s u opts fetcher clock
      = final_failure P s u (err N) (clock N) N"
    by (simp add: fetchAndUpdateFeed_def assms(2))
  have count: "map_option failureCount
           (Map_get (scheduledFeeds (snd (fetchAndUpdateFeed P s u opts fetcher clock)))
              (generateFeedId u))
           = Some (failureCount r + 1)"
    unfolding final by (rule final_failure_failureCount [OF assms(1)])
  have before: "\<forall>i. 1 \<le> i \<and> i < N \<longrightarrow>
             try_attempt P s u (fetcher i) (clock i) i = (Inl (err i), s)"
    using assms(4) by (simp add: try_attempt_ImportError)
  have result: "fetchAndUpdateFeed P s u opts fetcher clock
           = (FetchError (err N) N,
              s\<lparr>stats := (stats s)\<lparr>failedUpdates := failedUpdates (stats s) + 1\<rparr>,
                scheduledFeeds :=
                  Map_set (generateFeedId u)
                    (r\<lparr>lastRun := Some (clock N), failureCount := failureCount r + 1,
                       nextRun := t\<rparr>)
                    (scheduledFeeds s)\<rparr>)"
    if "getNextRunTime P (interval r) (clock N) = Some t" for t
    using assms(1) that by (simp add: final final_failure_def Let_def)
  from count before result show ?thesis by blast
qed

text \<open>
  C1.  For a feed whose ScheduleRecord exists and a fetcher that fails on all \<open>N\<close>
  allowed attempts, \<^verbatim>\<open>fetchAndUpdateFeed\<close> is to return a failure result with
  \<^verbatim>\<open>attempts = N\<close>, \<^verbatim>\<open>failureCount\<close> having grown by exactly one.  The code misses this on
  two inputs.  On a record whose interval has its next run beyond the last Date (an
  \<^verbatim>\<open>updateFeedSchedule\<close> that fails on \<^verbatim>\<open>toISOString\<close> leaves such an interval in the
  record), the handler of the last attempt counts the failure and then throws itself, so
  that the routine returns no result.  On a scheduler built with \<^verbatim>\<open>retryAttempts: 0\<close> the
  loop makes no attempt, the routine returns \<^verbatim>\<open>undefined\<close>, and \<^verbatim>\<open>failureCount\<close> stays.
\<close>

theorem fetchAndUpdateFeed_returns_no_failure_result:
  "fst (updateFeedSchedule utc_platform one_feed id_a ''*/200000000000 * * * *'' 0)
     = UpdateError ''Invalid time value''
   \<and> snd (updateFeedSchedule utc_platform one_feed id_a ''*/200000000000 * * * *'' 0)
     = far_future
   \<and> Map_get (scheduledFeeds far_future) (generateFeedId feed_a)
     = Some (record_a\<lparr>interval := ''*/200000000000 * * * *''\<rparr>)
   \<and> or_number (opt_retryAttempts no_fetch_options) (retryAttempts (options far_future)) = 3
   \<and> always_failing 1 = ImportError ''timeout''
   \<and> always_failing 2 = ImportError ''timeout''
   \<and> always_failing 3 = ImportError ''timeout''
   \<and> fst (fetchAndUpdateFeed utc_platform far_future feed_a no_fetch_options
            always_failing seconds)
     = FetchThrew ''Invalid time value''
   \<and> Map_get (scheduledFeeds no_retries) (generateFeedId feed_a) = Some record_a
   \<and> or_number (opt_retryAttempts no_fetch_options) (retryAttempts (options no_retries)) = 0
   \<and> fetchAndUpdateFeed utc_platform no_retries feed_a no_fetch_options
         always_failing seconds
     = (FetchUndefined, no_retries)"
proof -
  have "fst (updateFeedSchedule utc_platform one_feed id_a ''*/200000000000 * * * *'' 0)
     = UpdateError ''Invalid time value''"
    by (simp add: scheduler_simps example_simps one_feed_fields)
  moreover have "snd (updateFeedSchedule utc_platform one_feed id_a
        ''*/200000000000 * * * *'' 0) = far_future"
    by (simp add: far_future_def one_feed_def run_def)
  moreover have "Map_get (scheduledFeeds far_future) (generateFeedId feed_a)
     = Some (record_a\<lparr>interval := ''*/200000000000 * * * *''\<rparr>)"
    by (simp add: far_future_fields id_of_feed_a)
  moreover have
    "or_number (opt_retryAttempts no_fetch_options) (retryAttempts (options far_future)) = 3"
    by (simp add: far_future_fields or_number_def example_simps)
  moreover have "always_failing 1 = ImportError ''timeout''"
    "always_failing 2 = ImportError ''timeout''" "always_failing 3 = ImportError ''timeout''"
    by (simp_all add: always_failing_def)
  moreover have "fst (fetchAndUpdateFeed utc_platform far_future feed_a no_fetch_options
            always_failing seconds) = FetchThrew ''Invalid time value''"
    by (simp add: scheduler_simps example_simps far_future_fields id_of_feed_a
        fetch_loop.simps)
  moreover have "Map_get (scheduledFeeds no_retries) (generateFeedId feed_a) = Some record_a"
    by (simp add: no_retries_fields id_of_feed_a)
  moreover have
    "or_number (opt_retryAttempts no_fetch_options) (retryAttempts (options no_retries)) = 0"
    by (simp add: no_retries_fields or_number_def example_simps)
  moreover have "fetchAndUpdateFeed utc_platform no_retries feed_a no_fetch_options
         always_failing seconds = (FetchUndefined, no_retries)"
    by (simp add: fetchAndUpdateFeed_def or_number_def no_fetch_options_def
        no_retries_fields fetch_loop.simps)
  ultimately show ?thesis by blast
qed

text \<open>
  C2, as the code has it.  Let the ScheduleRecord of the URL exist, and let the fetcher
  fail on the attempts \<open>1..k\<close>, \<open>k < N\<close>, and succeed on attempt \<open>k + 1\<close>, where the
  Feed Store accepts the fetched feed and the next run time computed from the record's
  interval is a valid date.  Then \<^verbatim>\<open>fetchAndUpdateFeed\<close> returns the success result with
  \<^verbatim>\<open>attempt = k + 1\<close>, and afterwards the record has \<^verbatim>\<open>failureCount\<close> 0, \<^verbatim>\<open>lastRun\<close> and
  \<^verbatim>\<open>lastSuccess\<close> at the time of that attempt and \<^verbatim>\<open>nextRun\<close> computed from its
  interval at that time; \<^verbatim>\<open>successfulUpdates\<close> has grown by one and nothing else but the
  Feed Store's own state has changed.
\<close>

theorem fetch_succeeds_after_failures:
  assumes "Map_get (scheduledFeeds s) (generateFeedId u) = Some r"
    and "N = or_number (opt_retryAttempts opts) (retryAttempts (options s))"
    and "0 \<le> k" and "k < N"
    and "\<forall>i. 1 \<le> i \<and> i \<le> k \<longrightarrow> fetcher i = ImportError (err i)"
    and "fetcher (k + 1) = ImportOk feed"
    and "fm_addFeed (feedManager (options s)) (store s) u (FromFeed feed (clock (k + 1)))
           = (Returned (StoreOk fid), st)"
    and "getNextRunTime P (interval r) (clock (k + 1)) = Some next"
  shows "fetchAndUpdateFeed P s u opts fetcher clock
           = (FetchOk feed (length (items feed)) (k + 1),
              s\<lparr>store := st,
                stats := (stats s)\<lparr>successfulUpdates := successfulUpdates (stats s) + 1,
                                  lastUpdateTime := Some (clock (k + 1))\<rparr>,
                scheduledFeeds :=
                  Map_set (generateFeedId u)
                    (r\<lparr>lastRun := Some (clock (k + 1)), lastSuccess := Some (clock (k + 1)),
                       failureCount := 0, nextRun := next\<rparr>)
                    (scheduledFeeds s)\<rparr>)
       \<and> Map_get (scheduledFeeds (snd (fetchAndUpdateFeed P s u opts fetcher clock)))
             (generateFeedId u)
           = Some (r\<lparr>lastRun := Some (clock (k + 1)), lastSuccess := Some (clock (k + 1)),
                      failureCount := 0, nextRun := next\<rparr>)"
proof -
  have "fetch_loop P u fetcher clock N 1 s = fetch_loop P u fetcher clock N (k + 1) s"
    using assms(3,4,5) by (intro fetch_loop_failed_attempts) auto
  moreover have "k + 1 \<le> N" using assms(4) by simp
  ultimately have result: "fetchAndUpdateFeed P s u opts fetcher clock
           = (FetchOk feed (length (items feed)) (k + 1),
              s\<lparr>store := st,
                stats := (stats s)\<lparr>successfulUpdates := successfulUpdates (stats s) + 1,
                                  lastUpdateTime := Some (clock (k + 1))\<rparr>,
                scheduledFeeds :=
                  Map_set (generateFeedId u)
                    (r\<lparr>lastRun := Some (clock (k + 1)), lastSuccess := Some (clock (k + 1)),
                       failureCount := 0, nextRun := next\<rparr>)
                    (scheduledFeeds s)\<rparr>)"
    using assms(1,2,6,7,8)
    by (simp add: fetchAndUpdateFeed_def fetch_loop.simps [of _ _ _ _ _ "k + 1"]
        try_attempt_def Let_def)
  then show ?thesis by (simp add: update_conv')
qed

theorem fetch_succeeds_after_failures_witness:
  "Map_get (scheduledFeeds one_feed) (generateFeedId feed_a) = Some record_a
   \<and> or_number (opt_retryAttempts no_fetch_options) (retryAttempts (options one_feed)) = 3
   \<and> fails_twice 1 = ImportError ''timeout''
   \<and> fails_twice 2 = ImportError ''timeout''
   \<and> fails_twice 3 = ImportOk feed_of_a
   \<and> fst (fetchAndUpdateFeed utc_platform one_feed feed_a no_fetch_options fails_twice seconds)
       = FetchOk feed_of_a 1 3
   \<and> listScheduledFeeds
         (snd (fetchAndUpdateFeed utc_platform one_feed feed_a no_fetch_options
                 fails_twice seconds))
       = [record_a\<lparr>lastRun := Some 3000, lastSuccess := Some 3000, failureCount := 0,
                    nextRun := 303000\<rparr>]"
proof -
  have h1: "Map_get (scheduledFeeds one_feed) (generateFeedId feed_a) = Some record_a"
    by (simp add: one_feed_fields id_of_feed_a)
  have h2: "3 = or_number (opt_retryAttempts no_fetch_options) (retryAttempts (options one_feed))"
    by (simp add: one_feed_fields or_number_def example_simps)
  have h3: "(0::int) \<le> 2" and h4: "(2::int) < 3" by simp_all
  have h5: "\<forall>i. 1 \<le> i \<and> i \<le> 2 \<longrightarrow> fails_twice i = ImportError ''timeout''"
    by (simp add: fails_twice_def)
  have h6: "fails_twice (2 + 1) = ImportOk feed_of_a"
    by (simp add: fails_twice_def)
  have h7: "fm_addFeed (feedManager (options one_feed)) (store one_feed) feed_a
              (FromFeed feed_of_a (seconds (2 + 1)))
            = (Returned (StoreOk id_a), [(id_a, feed_a, FromFeed feed_of_a 3000)])"
    by (simp add: one_feed_fields example_simps id_of_feed_a)
  have h8: "getNextRunTime utc_platform (interval record_a) (seconds (2 + 1)) = Some 303000"
    by (simp add: scheduler_simps example_simps)
  show ?thesis
    using fetch_succeeds_after_failures
        [where err = "\<lambda>_. ''timeout''" and clock = seconds and fetcher = fails_twice
           and N = 3 and k = 2 and P = utc_platform, OF h1 h2 h3 h4 h5 h6 h7 h8]
      h1 h2
    by (simp add: listScheduledFeeds_def one_feed_fields id_of_feed_a fails_twice_def
        feed_of_a_def seconds_def)
qed

text \<open>The claim as stated fails where the attempt cannot be completed although the
  fetcher has succeeded.  With a Feed Store that refuses the fetched feed, the fetcher
  fails on attempt 1 and succeeds on attempt 2 of 2, and the routine returns the failure
  result, \<^verbatim>\<open>failureCount\<close> ending at 1.  With a record whose interval has its next run
  beyond the last Date, the fetcher succeeds on attempt 3 of 3 and the routine throws.\<close>

theorem fetcher_succeeds_and_routine_fails:
  "Map_get (scheduledFeeds refusing_updates) (generateFeedId feed_a) = Some record_a
   \<and> or_number (opt_retryAttempts two_attempts) (retryAttempts (options refusing_updates)) = 2
   \<and> fails_once 1 = ImportError ''timeout''
   \<and> fails_once 2 = ImportOk feed_of_a
   \<and> fst (fetchAndUpdateFeed utc_platform refusing_updates feed_a two_attempts
            fails_once seconds)
     = FetchError ''store full'' 2
   \<and> map failureCount (listScheduledFeeds
         (snd (fetchAndUpdateFeed utc_platform refusing_updates feed_a two_attempts
                 fails_once seconds)))
     = [1]
   \<and> Map_get (scheduledFeeds far_future) (generateFeedId feed_a)
     = Some (record_a\<lparr>interval := ''*/200000000000 * * * *''\<rparr>)
   \<and> or_number (opt_retryAttempts no_fetch_options) (retryAttempts (options far_future)) = 3
   \<and> fails_twice 1 = ImportError ''timeout''
   \<and> fails_twice 2 = ImportError ''timeout''
   \<and> fails_twice 3 = ImportOk feed_of_a
   \<and> fst (fetchAndUpdateFeed utc_platform far_future feed_a no_fetch_options
            fails_twice seconds)
     = FetchThrew ''Invalid time value''"
proof -
  have "Map_get (scheduledFeeds refusing_updates) (generateFeedId feed_a) = Some record_a"
    by (simp add: refusing_updates_fields id_of_feed_a)
  moreover have
    "or_number (opt_retryAttempts two_attempts) (retryAttempts (options refusing_updates)) = 2"
    by (simp add: or_number_def two_attempts_def)
  moreover have "fails_once 1 = ImportError ''timeout''" "fails_once 2 = ImportOk feed_of_a"
    "fails_twice 1 = ImportError ''timeout''" "fails_twice 2 = ImportError ''timeout''"
    "fails_twice 3 = ImportOk feed_of_a"
    by (simp_all add: fails_once_def fails_twice_def)
  moreover have "fst (fetchAndUpdateFeed utc_platform refusing_updates feed_a two_attempts
            fails_once seconds) = FetchError ''store full'' 2"
    "map failureCount (listScheduledFeeds
         (snd (fetchAndUpdateFeed utc_platform refusing_updates feed_a two_attempts
                 fails_once seconds))) = [1]"
    by (simp_all add: scheduler_simps example_simps refusing_updates_fields id_of_feed_a
        fetch_loop.simps)
  moreover have "Map_get (scheduledFeeds far_future) (generateFeedId feed_a)
     = Some (record_a\<lparr>interval := ''*/200000000000 * * * *''\<rparr>)"
    by (simp add: far_future_fields id_of_feed_a)
  moreover have
    "or_number (opt_retryAttempts no_fetch_options) (retryAttempts (options far_future)) = 3"
    by (simp add: far_future_fields or_number_def example_simps)
  moreover have "fst (fetchAndUpdateFeed utc_platform far_future feed_a no_fetch_options
            fails_twice seconds) = FetchThrew ''Invalid time value''"
    by (simp add: scheduler_simps example_simps far_future_fields id_of_feed_a
        fetch_loop.simps)
  ultimately show ?thesis by blast
qed

subsection \<open>Jobs and the Job Table\<close>

lemma createCronJob_fields [simp]:
  "scheduledFeeds (createCronJob P s k r) = scheduledFeeds s"
  "running (createCronJob P s k r) = running s"
  "paused (createCronJob P s k r) = paused s"
  "stats (createCronJob P s k r) = stats s"
  "options (createCronJob P s k r) = options s"
  "store (createCronJob P s k r) = store s"
  by (simp_all add: createCronJob_def)

lemma createCronJob_keys:
  "fst ` set (activeJobs (createCronJob P s k r))
     = fst ` set (activeJobs s) \<union> (if cron_validate P (interval r) then {k} else {})"
  by (auto simp: createCronJob_def dom_update)

lemma createCronJob_distinct:
  "distinct (map fst (activeJobs s)) \<Longrightarrow> distinct (map fst (activeJobs (createCronJob P s k r)))"
  by (simp add: createCronJob_def distinct_update)

lemma update_fresh_key_member:
  "(k, v') \<in> set (AList.update k v al) \<Longrightarrow> k \<notin> fst ` set al \<Longrightarrow> v' = v"
  by (induction al) (auto split: if_splits)

lemma map_of_jobs_started:
  "Map_get (map (\<lambda>(feedId, job). (feedId, job\<lparr>started := b\<rparr>)) jobs) k
     = map_option (\<lambda>job. job\<lparr>started := b\<rparr>) (Map_get jobs k)"
  by (induction jobs) auto

lemma pair_with_snd: "fst x = a \<Longrightarrow> x = (a, snd x)"
  by (cases x) simp

subsection \<open>Changing a schedule\<close>

lemma updateFeedSchedule_success:
  assumes "Map_get (scheduledFeeds s) feedId = Some r"
    and "updateFeedSchedule P s feedId newInterval now = (UpdateOk next, s')"
  shows "cron_validate P newInterval"
    and "getNextRunTime P newInterval now = Some next"
    and "s' = (if running s \<and> \<not> paused s then
                 createCronJob P
                   (if Map_has (activeJobs s) feedId
                    then s\<lparr>scheduledFeeds :=
                             Map_set feedId (r\<lparr>interval := newInterval, nextRun := next\<rparr>)
                               (scheduledFeeds s),
                           activeJobs := Map_delete feedId (activeJobs s)\<rparr>
                    else s\<lparr>scheduledFeeds :=
                             Map_set feedId (r\<lparr>interval := newInterval, nextRun := next\<rparr>)
                               (scheduledFeeds s)\<rparr>)
                   feedId (r\<lparr>interval := newInterval, nextRun := next\<rparr>)
               else s\<lparr>scheduledFeeds :=
                        Map_set feedId (r\<lparr>interval := newInterval, nextRun := next\<rparr>)
                          (scheduledFeeds s)\<rparr>)"
  using assms unfolding updateFeedSchedule_def Let_def validateCronExpression_def
  by (auto split: if_splits option.splits)

lemma updateFeedSchedule_running_job:
  assumes "Map_get (scheduledFeeds s) feedId = Some r"
    and "updateFeedSchedule P s feedId newInterval now = (UpdateOk next, s')"
    and "running s" and "\<not> paused s"
  shows "Map_get (activeJobs s') feedId
           = Some \<lparr>expression = newInterval, started = True, job_url = url r\<rparr>"
    and "(feedId, job) \<in> set (activeJobs s') \<Longrightarrow> expression job = newInterval"
proof -
  note ok = updateFeedSchedule_success [OF assms(1,2)]
  let ?job = "\<lparr>expression = newInterval, started = True, job_url = url r\<rparr>"
  have "\<exists>jobs. feedId \<notin> fst ` set jobs \<and> activeJobs s' = Map_set feedId ?job jobs"
  proof (cases "Map_has (activeJobs s) feedId")
    case True
    have "feedId \<notin> fst ` set (Map_delete feedId (activeJobs s))"
      by (simp add: AList.delete_eq image_iff)
    moreover have "activeJobs s' = Map_set feedId ?job (Map_delete feedId (activeJobs s))"
      using True assms(3,4) ok(1) by (simp add: ok(3) createCronJob_def)
    ultimately show ?thesis by blast
  next
    case False
    then have "feedId \<notin> fst ` set (activeJobs s)"
      by (simp add: map_of_eq_None_iff)
    moreover have "activeJobs s' = Map_set feedId ?job (activeJobs s)"
      using False assms(3,4) ok(1) by (simp add: ok(3) createCronJob_def)
    ultimately show ?thesis by blast
  qed
  then obtain jobs where j: "feedId \<notin> fst ` set jobs" "activeJobs s' = Map_set feedId ?job jobs"
    by blast
  show "Map_get (activeJobs s') feedId = Some ?job"
    by (simp add: j(2) update_conv')
  show "expression job = newInterval" if "(feedId, job) \<in> set (activeJobs s')"
    using that j update_fresh_key_member [of feedId job ?job jobs] by auto
qed




subsection \<open>Adding a feed\<close>

lemma addFeed_success:
  assumes "addFeed P s u opts now = (AddOk feedId next rec, s1)"
  shows "feedId = generateFeedId u"
    and "scheduledFeeds s1 = Map_set feedId rec (scheduledFeeds s)"
    and "running s1 = running s" and "paused s1 = paused s"
    and "\<not> (running s \<and> \<not> paused s) \<Longrightarrow> activeJobs s1 = activeJobs s"
  using assms unfolding addFeed_def Let_def
  by (auto split: if_splits prod.splits reply.splits store_result.splits option.splits)

lemma addFeed_stored_record:
  assumes "addFeed P s u opts now = (AddOk feedId next rec, s1)"
  shows "rec = spread
           \<lparr>id' = generateFeedId u, url = u, title = or_string (opt_title opts) [],
            interval = or_string (opt_interval opts) (defaultInterval (options s)),
            nextRun = next, lastRun = None, lastSuccess = None, failureCount = 0,
            enabled = True, extra = []\<rparr>
           opts"
  using assms unfolding addFeed_def Let_def
  by (auto split: if_splits prod.splits reply.splits store_result.splits option.splits)



text \<open>
  C9.  When \<^verbatim>\<open>addFeed(url, options)\<close> succeeds, the record it returns is the one stored
  under the feed-id of the URL, and every key present in the options bag has in that
  record the value the bag gives it: \<^verbatim>\<open>id\<close>, \<^verbatim>\<open>url\<close>, \<^verbatim>\<open>title\<close>, \<^verbatim>\<open>interval\<close>,
  \<^verbatim>\<open>nextRun\<close>, \<^verbatim>\<open>lastRun\<close>, \<^verbatim>\<open>lastSuccess\<close>, \<^verbatim>\<open>failureCount\<close>, \<^verbatim>\<open>enabled\<close>, and the
  keys that are none of these.
\<close>

theorem addFeed_copies_options:
  assumes "addFeed P s u opts now = (AddOk feedId next rec, s')"
  shows "Map_get (scheduledFeeds s') (generateFeedId u) = Some rec
       \<and> (\<forall>v. opt_id opts = Some v \<longrightarrow> id' rec = v)
       \<and> (\<forall>v. opt_url opts = Some v \<longrightarrow> url rec = v)
       \<and> (\<forall>v. opt_title opts = Some v \<longrightarrow> title rec = v)
       \<and> (\<forall>v. opt_interval opts = Some v \<longrightarrow> interval rec = v)
       \<and> (\<forall>v. opt_nextRun opts = Some v \<longrightarrow> nextRun rec = v)
       \<and> (\<forall>v. opt_lastRun opts = Some v \<longrightarrow> lastRun rec = v)
       \<and> (\<forall>v. opt_lastSuccess opts = Some v \<longrightarrow> lastSuccess rec = v)
       \<and> (\<forall>v. opt_failureCount opts = Some v \<longrightarrow> failureCount rec = v)
       \<and> (\<forall>v. opt_enabled opts = Some v \<longrightarrow> enabled rec = v)
       \<and> extra rec = opt_extra opts"
proof -
  have stored: "Map_get (scheduledFeeds s') (generateFeedId u) = Some rec"
    using addFeed_success(1,2) [OF assms] by (simp add: update_conv')
  have copied: "(\<forall>v. opt_id opts = Some v \<longrightarrow> id' rec = v)
       \<and> (\<forall>v. opt_url opts = Some v \<longrightarrow> url rec = v)
       \<and> (\<forall>v. opt_title opts = Some v \<longrightarrow> title rec = v)
       \<and> (\<forall>v. opt_interval opts = Some v \<longrightarrow> interval rec = v)
       \<and> (\<forall>v. opt_nextRun opts = Some v \<longrightarrow> nextRun rec = v)
       \<and> (\<forall>v. opt_lastRun opts = Some v \<longrightarrow> lastRun rec = v)
       \<and> (\<forall>v. opt_lastSuccess opts = Some v \<longrightarrow> lastSuccess rec = v)
       \<and> (\<forall>v. opt_failureCount opts = Some v \<longrightarrow> failureCount rec = v)
       \<and> (\<forall>v. opt_enabled opts = Some v \<longrightarrow> enabled rec = v)
       \<and> extra rec = opt_extra opts"
    unfolding addFeed_stored_record [OF assms] by (simp add: spread_def)
  from stored copied show ?thesis by (rule conjI)
qed

theorem addFeed_copies_options_witness:
  "fst (addFeed utc_platform fresh feed_a all_options 0)
     = AddOk id_a 300000
         \<lparr>id' = ''custom-id'', url = ''https://b.example/rss'', title = ''B'',
          interval = ''*/5 * * * *'', nextRun = 42, lastRun = Some 7, lastSuccess = Some 6,
          failureCount = 7, enabled = False, extra = [(''category'', ''tech'')]\<rparr>
   \<and> map_option (\<lambda>r. (enabled r, failureCount r, id' r))
         (Map_get (scheduledFeeds (snd (addFeed utc_platform fresh feed_a all_options 0)))
            (generateFeedId feed_a))
       = Some (False, 7, ''custom-id'')"
proof -
  have h: "fst (addFeed utc_platform fresh feed_a all_options 0)
     = AddOk id_a 300000
         \<lparr>id' = ''custom-id'', url = ''https://b.example/rss'', title = ''B'',
          interval = ''*/5 * * * *'', nextRun = 42, lastRun = Some 7, lastSuccess = Some 6,
          failureCount = 7, enabled = False, extra = [(''category'', ''tech'')]\<rparr>"
    by (simp add: scheduler_simps example_simps id_of_feed_a)
  show ?thesis
    using addFeed_copies_options [OF pair_with_snd [OF h]] h
    by (simp add: all_options_def)
qed

subsection \<open>Removing a feed\<close>




subsection \<open>Starting the engine\<close>

lemma start_jobs_fields:
  "scheduledFeeds (fold (\<lambda>(feedId, scheduledFeed) s'.
       if enabled scheduledFeed then createCronJob P s' feedId scheduledFeed else s') feeds s)
     = scheduledFeeds s
   \<and> running (fold (\<lambda>(feedId, scheduledFeed) s'.
       if enabled scheduledFeed then createCronJob P s' feedId scheduledFeed else s') feeds s)
     = running s
   \<and> paused (fold (\<lambda>(feedId, scheduledFeed) s'.
       if enabled scheduledFeed then createCronJob P s' feedId scheduledFeed else s') feeds s)
     = paused s
   \<and> stats (fold (\<lambda>(feedId, scheduledFeed) s'.
       if enabled scheduledFeed then createCronJob P s' feedId scheduledFeed else s') feeds s)
     = stats s"
  by (induction feeds arbitrary: s) (auto split: prod.splits)

lemma start_jobs_keys:
  "fst ` set (activeJobs (fold (\<lambda>(feedId, scheduledFeed) s'.
       if enabled scheduledFeed then createCronJob P s' feedId scheduledFeed else s') feeds s))
   = fst ` set (activeJobs s)
     \<union> {k. \<exists>r. (k, r) \<in> set feeds \<and> enabled r \<and> cron_validate P (interval r)}"
proof (induction feeds arbitrary: s)
  case Nil
  then show ?case by simp
next
  case (Cons p feeds)
  obtain k r where p: "p = (k, r)" by (cases p)
  show ?case
    unfolding p by (simp add: Cons.IH createCronJob_keys) blast
qed

lemma start_jobs_distinct:
  "distinct (map fst (activeJobs s)) \<Longrightarrow>
   distinct (map fst (activeJobs (fold (\<lambda>(feedId, scheduledFeed) s'.
       if enabled scheduledFeed then createCronJob P s' feedId scheduledFeed else s') feeds s)))"
  by (induction feeds arbitrary: s) (auto split: prod.splits intro: createCronJob_distinct)

lemma running_start: "running (start P s)"
  by (simp add: start_def start_jobs_fields)

text \<open>
  C7, as the code has it.  \<^verbatim>\<open>start\<close> is idempotent on every state: after \<^verbatim>\<open>start\<close> a
  second \<^verbatim>\<open>start\<close> changes nothing, \<^verbatim>\<open>isRunning\<close> is true, and a \<^verbatim>\<open>start\<close> on a running
  engine is no action at all.  When \<^verbatim>\<open>start\<close> is called on a stopped engine whose Job
  Table is empty, the Job Table afterwards has no feed-id twice and holds a Job for
  exactly the feed-ids of the enabled records whose interval node-cron accepts.
\<close>

theorem start_idempotent:
  "start P (start P s) = start P s
   \<and> isRunning (start P s)
   \<and> (running s \<longrightarrow> start P s = s)
   \<and> (\<not> running s \<and> activeJobs s = [] \<longrightarrow>
        distinct (map fst (activeJobs (start P s)))
      \<and> set (map fst (activeJobs (start P s)))
          = {k. \<exists>r. (k, r) \<in> set (scheduledFeeds s) \<and> enabled r
                    \<and> cron_validate P (interval r)})"
proof (intro conjI impI)
  show "start P (start P s) = start P s"
    using running_start [of P s] by (simp add: start_def [of P "start P s"])
  show "isRunning (start P s)"
    by (simp add: isRunning_def running_start)
  show "start P s = s" if "running s"
    using that by (simp add: start_def)
  show "distinct (map fst (activeJobs (start P s)))" if "\<not> running s \<and> activeJobs s = []"
    using that by (simp add: start_def start_jobs_distinct)
  show "set (map fst (activeJobs (start P s)))
          = {k. \<exists>r. (k, r) \<in> set (scheduledFeeds s) \<and> enabled r
                    \<and> cron_validate P (interval r)}" if "\<not> running s \<and> activeJobs s = []"
    using that by (simp add: start_def start_jobs_keys)
qed

theorem start_idempotent_witness:
  "\<not> running one_feed \<and> activeJobs one_feed = []
   \<and> start utc_platform (start utc_platform one_feed) = start utc_platform one_feed
   \<and> isRunning (start utc_platform one_feed)
   \<and> activeJobs (start utc_platform one_feed)
       = [(id_a, \<lparr>expression = ''*/5 * * * *'', started = True, job_url = feed_a\<rparr>)]
   \<and> running added_while_paused
   \<and> start utc_platform added_while_paused = added_while_paused"
proof -
  have a: "\<not> running one_feed \<and> activeJobs one_feed = []"
    by (simp add: one_feed_fields)
  have b: "running added_while_paused"
    by (simp add: added_while_paused_fields)
  have c: "activeJobs (start utc_platform one_feed)
       = [(id_a, \<lparr>expression = ''*/5 * * * *'', started = True, job_url = feed_a\<rparr>)]"
    by (simp add: start_def createCronJob_def one_feed_fields example_simps)
  show ?thesis
    using start_idempotent [of utc_platform one_feed]
      start_idempotent [of utc_platform added_while_paused] a b c
    by simp
qed

text \<open>The claim as stated fails on a state that is already running: after \<^verbatim>\<open>start\<close>,
  \<^verbatim>\<open>pause\<close> and a successful \<^verbatim>\<open>addFeed\<close>, two calls of \<^verbatim>\<open>start\<close> leave the engine
  running with an enabled record and an empty Job Table.\<close>

theorem start_twice_leaves_enabled_record_without_job:
  "isRunning (start utc_platform (start utc_platform added_while_paused))
   \<and> listScheduledFeeds (start utc_platform (start utc_platform added_while_paused))
       = [record_a]
   \<and> enabled record_a
   \<and> activeJobs (start utc_platform (start utc_platform added_while_paused)) = []"
  by (simp add: start_def isRunning_def listScheduledFeeds_def added_while_paused_fields
      record_a_def)

subsection \<open>Adding a feed while the engine is paused\<close>

text \<open>
  C10, as the code has it.  Let \<^verbatim>\<open>addFeed\<close> succeed while the engine is running and
  paused, for a feed that has no Job.  Then no Job is created for it, and \<^verbatim>\<open>resume\<close>
  does not create one either.  \<^verbatim>\<open>stop\<close> followed by \<^verbatim>\<open>start\<close> creates it exactly when the
  stored record is enabled and node-cron accepts its interval; and so does, after
  \<^verbatim>\<open>resume\<close>, every successful \<^verbatim>\<open>updateFeedSchedule\<close> of the feed.
\<close>

theorem addFeed_while_paused:
  assumes "running s" and "paused s"
    and "distinct (map fst (scheduledFeeds s))"
    and "\<not> Map_has (activeJobs s) (generateFeedId u)"
    and "addFeed P s u opts now = (AddOk feedId next rec, s1)"
  shows "\<not> Map_has (activeJobs s1) feedId
       \<and> \<not> Map_has (activeJobs (resume s1)) feedId
       \<and> (Map_has (activeJobs (start P (stop (resume s1)))) feedId
            \<longleftrightarrow> enabled rec \<and> cron_validate P (interval rec))
       \<and> (\<forall>newInterval t next' s2.
            updateFeedSchedule P (resume s1) feedId newInterval t = (UpdateOk next', s2)
              \<longrightarrow> Map_has (activeJobs s2) feedId)"
proof -
  note ok = addFeed_success [OF assms(5)]
  have jobs1: "activeJobs s1 = activeJobs s"
    using ok(5) assms(2) by simp
  have run1: "running s1" "paused s1"
    using ok(3,4) assms(1,2) by simp_all
  have rec1: "Map_get (scheduledFeeds s1) feedId = Some rec"
    by (simp add: ok(2) update_conv')
  have dist1: "distinct (map fst (scheduledFeeds s1))"
    by (simp add: ok(2) distinct_update assms(3))
  have a: "\<not> Map_has (activeJobs s1) feedId"
    using assms(4) by (simp add: jobs1 ok(1))
  have b: "\<not> Map_has (activeJobs (resume s1)) feedId"
    using a run1 by (simp add: resume_def map_of_jobs_started)
  have stopped: "\<not> running (stop (resume s1))" "activeJobs (stop (resume s1)) = []"
    "scheduledFeeds (stop (resume s1)) = scheduledFeeds s1"
    using run1 by (simp_all add: stop_def resume_def)
  have "fst ` set (activeJobs (start P (stop (resume s1))))
      = {k. \<exists>r. (k, r) \<in> set (scheduledFeeds s1) \<and> enabled r \<and> cron_validate P (interval r)}"
    using stopped by (simp add: start_def start_jobs_keys)
  moreover have "(feedId, r) \<in> set (scheduledFeeds s1) \<longleftrightarrow> r = rec" for r
    using rec1 map_of_is_SomeI [OF dist1, of feedId r] by (auto dest: map_of_SomeD)
  ultimately have c: "Map_has (activeJobs (start P (stop (resume s1)))) feedId
            \<longleftrightarrow> enabled rec \<and> cron_validate P (interval rec)"
    by (auto simp: map_of_eq_None_iff)
  have resumed: "running (resume s1)" "\<not> paused (resume s1)"
    "scheduledFeeds (resume s1) = scheduledFeeds s1"
    using run1 by (simp_all add: resume_def)
  have d: "Map_has (activeJobs s2) feedId"
    if "updateFeedSchedule P (resume s1) feedId newInterval t = (UpdateOk next', s2)"
    for newInterval t next' s2
    using updateFeedSchedule_running_job(1) [OF _ that resumed(1,2)] rec1 resumed(3) by simp
  from a b c d show ?thesis by blast
qed

theorem addFeed_while_paused_witness:
  "running (pause (start utc_platform fresh)) \<and> paused (pause (start utc_platform fresh))
   \<and> distinct (map fst (scheduledFeeds (pause (start utc_platform fresh))))
   \<and> \<not> Map_has (activeJobs (pause (start utc_platform fresh))) (generateFeedId feed_a)
   \<and> fst (addFeed utc_platform (pause (start utc_platform fresh)) feed_a every_5_minutes 0)
       = AddOk id_a 300000 record_a
   \<and> snd (addFeed utc_platform (pause (start utc_platform fresh)) feed_a every_5_minutes 0)
       = added_while_paused
   \<and> activeJobs added_while_paused = []
   \<and> activeJobs (resume added_while_paused) = []
   \<and> enabled record_a \<and> cron_validate utc_platform (interval record_a)
   \<and> Map_has (activeJobs (start utc_platform (stop (resume added_while_paused)))) id_a"
proof -
  have h1: "running (pause (start utc_platform fresh))"
    and h2: "paused (pause (start utc_platform fresh))"
    and h3: "distinct (map fst (scheduledFeeds (pause (start utc_platform fresh))))"
    and h4: "\<not> Map_has (activeJobs (pause (start utc_platform fresh))) (generateFeedId feed_a)"
    by (simp_all add: pause_def start_def example_simps)
  have r: "fst (addFeed utc_platform (pause (start utc_platform fresh)) feed_a every_5_minutes 0)
       = AddOk id_a 300000 record_a"
    by (simp add: scheduler_simps example_simps id_of_feed_a)
  have s1: "snd (addFeed utc_platform (pause (start utc_platform fresh)) feed_a
              every_5_minutes 0) = added_while_paused"
    by (simp add: added_while_paused_def run_def)
  have h5: "addFeed utc_platform (pause (start utc_platform fresh)) feed_a every_5_minutes 0
       = (AddOk id_a 300000 record_a, added_while_paused)"
    using pair_with_snd [OF r] by (simp add: s1)
  have e: "enabled record_a \<and> cron_validate utc_platform (interval record_a)"
    by (simp add: example_simps)
  have j: "activeJobs added_while_paused = []" "activeJobs (resume added_while_paused) = []"
    by (simp_all add: resume_def added_while_paused_fields)
  show ?thesis
    using addFeed_while_paused [OF h1 h2 h3 h4 h5] h1 h2 h3 h4 r s1 e j
    by simp
qed

text \<open>The claim as stated fails on its last part: after the \<^verbatim>\<open>addFeed\<close> under pause and
  a \<^verbatim>\<open>resume\<close>, with no \<^verbatim>\<open>stop\<close> and no \<^verbatim>\<open>start\<close> in between, a successful
  \<^verbatim>\<open>updateFeedSchedule\<close> gives the new feed its first Job.\<close>

theorem job_created_without_stop_and_start:
  "fst (addFeed utc_platform (pause (start utc_platform fresh)) feed_a every_5_minutes 0)
     = AddOk id_a 300000 record_a
   \<and> snd (addFeed utc_platform (pause (start utc_platform fresh)) feed_a every_5_minutes 0)
     = added_while_paused
   \<and> isRunning added_while_paused \<and> isPaused added_while_paused
   \<and> activeJobs added_while_paused = []
   \<and> activeJobs (resume added_while_paused) = []
   \<and> fst (updateFeedSchedule utc_platform (resume added_while_paused) id_a
            ''*/10 * * * *'' 1000)
     = UpdateOk 601000
   \<and> activeJobs (snd (updateFeedSchedule utc_platform (resume added_while_paused) id_a
                        ''*/10 * * * *'' 1000))
     = [(id_a, \<lparr>expression = ''*/10 * * * *'', started = True, job_url = feed_a\<rparr>)]"
proof -
  have "fst (addFeed utc_platform (pause (start utc_platform fresh)) feed_a every_5_minutes 0)
       = AddOk id_a 300000 record_a"
    by (simp add: scheduler_simps example_simps id_of_feed_a)
  moreover have "snd (addFeed utc_platform (pause (start utc_platform fresh)) feed_a
              every_5_minutes 0) = added_while_paused"
    by (simp add: added_while_paused_def run_def)
  moreover have "isRunning added_while_paused \<and> isPaused added_while_paused
   \<and> activeJobs added_while_paused = []
   \<and> activeJobs (resume added_while_paused) = []"
    by (simp add: isRunning_def isPaused_def resume_def added_while_paused_fields)
  moreover have "fst (updateFeedSchedule utc_platform (resume added_while_paused) id_a
            ''*/10 * * * *'' 1000) = UpdateOk 601000
   \<and> activeJobs (snd (updateFeedSchedule utc_platform (resume added_while_paused) id_a
                        ''*/10 * * * *'' 1000))
     = [(id_a, \<lparr>expression = ''*/10 * * * *'', started = True, job_url = feed_a\<rparr>)]"
    by (simp add: scheduler_simps example_simps added_while_paused_fields)
  ultimately show ?thesis by blast
qed

subsection \<open>The counters of the engine\<close>

lemma counters_le_refl [simp]: "counters_le s s"
  by (simp add: counters_le_def)

lemma counters_le_trans: "counters_le a b \<Longrightarrow> counters_le b c \<Longrightarrow> counters_le a c"
  by (auto simp: counters_le_def)

lemma addFeed_counters: "counters_le s (snd (addFeed P s u opts now))"
  unfolding addFeed_def Let_def counters_le_def
  by (auto split: prod.splits reply.splits store_result.splits option.splits)

lemma removeFeed_counters: "counters_le s (snd (removeFeed s feedId))"
  unfolding removeFeed_def Let_def counters_le_def
  by (auto split: prod.splits reply.splits)

lemma updateFeedSchedule_counters:
  "counters_le s (snd (updateFeedSchedule P s feedId newInterval now))"
  unfolding updateFeedSchedule_def Let_def counters_le_def
  by (auto split: option.splits)

lemma start_counters: "counters_le s (start P s)"
  by (simp add: start_def counters_le_def start_jobs_fields)

lemma lifecycle_counters:
  "counters_le s (stop s)" "counters_le s (pause s)" "counters_le s (resume s)"
  "counters_le s (close s)"
  by (simp_all add: stop_def pause_def resume_def close_def counters_le_def)

lemma try_attempt_counters:
  "counters_le s (snd (try_attempt P s u importResult now attempt))"
  unfolding try_attempt_def Let_def counters_le_def
  by (auto split: import_result.splits prod.splits reply.splits store_result.splits
      option.splits)

lemma final_failure_counters:
  "counters_le s (snd (final_failure P s u e now maxRetries))"
  unfolding final_failure_def Let_def counters_le_def
  by (auto split: option.splits)

lemma fetch_loop_counters:
  "counters_le s (snd (fetch_loop P u fetcher clock maxRetries attempt s))"
proof (induction P u fetcher clock maxRetries attempt s rule: fetch_loop.induct)
  case (1 P u fetcher clock maxRetries attempt s)
  show ?case
  proof (cases "attempt \<le> maxRetries")
    case False
    then show ?thesis by (subst fetch_loop.simps) simp
  next
    case True
    obtain outcome s' where t:
      "try_attempt P s u (fetcher attempt) (clock attempt) attempt = (outcome, s')"
      by (cases "try_attempt P s u (fetcher attempt) (clock attempt) attempt")
    have step: "counters_le s s'"
      using try_attempt_counters [of s P u "fetcher attempt" "clock attempt" attempt]
      by (simp add: t)
    show ?thesis
    proof (cases outcome)
      case (Inr result)
      with True t step show ?thesis
        by (subst fetch_loop.simps) simp
    next
      case (Inl e)
      show ?thesis
      proof (cases "attempt = maxRetries")
        case last: True
        have "counters_le s' (snd (final_failure P s' u e (clock attempt) maxRetries))"
          by (rule final_failure_counters)
        with step have "counters_le s (snd (final_failure P s' u e (clock attempt) maxRetries))"
          by (rule counters_le_trans)
        with True t Inl last show ?thesis
          by (subst fetch_loop.simps) simp
      next
        case more: False
        have "counters_le s' (snd (fetch_loop P u fetcher clock maxRetries (attempt + 1) s'))"
          using "1.IH" [OF True t [symmetric] _ more] Inl by simp
        with step have
          "counters_le s (snd (fetch_loop P u fetcher clock maxRetries (attempt + 1) s'))"
          by (rule counters_le_trans)
        with True t Inl more show ?thesis
          by (subst fetch_loop.simps) simp
      qed
    qed
  qed
qed

lemma fetchAndUpdateFeed_counters:
  "counters_le s (snd (fetchAndUpdateFeed P s u opts fetcher clock))"
  by (simp add: fetchAndUpdateFeed_def fetch_loop_counters)

lemma fire_counters: "counters_le s (fire P s feedId fetcher clock)"
  by (simp add: fire_def fetchAndUpdateFeed_counters split: option.splits)

lemma perform_counters: "counters_le s (perform P op s)"
  by (cases op)
    (simp_all add: addFeed_counters removeFeed_counters updateFeedSchedule_counters
      start_counters lifecycle_counters fetchAndUpdateFeed_counters fire_counters)

lemma run_counters: "counters_le s (run P ops s)"
proof (induction ops arbitrary: s)
  case Nil
  then show ?case by (simp add: run_def)
next
  case (Cons op ops)
  have "counters_le s (perform P op s)" by (rule perform_counters)
  moreover have "counters_le (perform P op s) (run P ops (perform P op s))"
    by (rule Cons.IH)
  ultimately show ?case
    using counters_le_trans by (fastforce simp: run_def)
qed

text \<open>
  C8, as the code has it.  Over every sequence of scheduler operations (calls of the
  public methods and firings of tasks, whatever the fetcher, the clock and the Feed Store
  answer), \<^verbatim>\<open>successfulUpdates\<close> and \<^verbatim>\<open>failedUpdates\<close> never decrease.  \<^verbatim>\<open>totalFeeds\<close> is
  not such a counter: a successful \<^verbatim>\<open>addFeed\<close> and a successful \<^verbatim>\<open>removeFeed\<close> set it to
  the number of ScheduleRecords the scheduler then holds.
\<close>

theorem update_counters_never_decrease:
  "successfulUpdates (stats s) \<le> successfulUpdates (stats (run P ops s))
   \<and> failedUpdates (stats s) \<le> failedUpdates (stats (run P ops s))
   \<and> (fst (removeFeed s feedId) = RemoveOk \<longrightarrow>
        totalFeeds (stats (snd (removeFeed s feedId)))
          = Map_size (scheduledFeeds (snd (removeFeed s feedId))))
   \<and> (\<forall>fid next rec. fst (addFeed P s u opts now) = AddOk fid next rec \<longrightarrow>
        totalFeeds (stats (snd (addFeed P s u opts now)))
          = Map_size (scheduledFeeds (snd (addFeed P s u opts now))))"
proof (intro conjI)
  show "successfulUpdates (stats s) \<le> successfulUpdates (stats (run P ops s))"
    and "failedUpdates (stats s) \<le> failedUpdates (stats (run P ops s))"
    using run_counters [of s P ops] by (simp_all add: counters_le_def)
  show "fst (removeFeed s feedId) = RemoveOk \<longrightarrow>
        totalFeeds (stats (snd (removeFeed s feedId)))
          = Map_size (scheduledFeeds (snd (removeFeed s feedId)))"
    unfolding removeFeed_def Let_def by (auto split: prod.splits reply.splits)
  show "\<forall>fid next rec. fst (addFeed P s u opts now) = AddOk fid next rec \<longrightarrow>
        totalFeeds (stats (snd (addFeed P s u opts now)))
          = Map_size (scheduledFeeds (snd (addFeed P s u opts now)))"
    unfolding addFeed_def Let_def
    by (auto split: prod.splits reply.splits store_result.splits option.splits)
qed

theorem update_counters_never_decrease_witness:
  "stats one_feed
     = \<lparr>totalFeeds = 1, successfulUpdates = 0, failedUpdates = 0, lastUpdateTime = None\<rparr>
   \<and> stats (run utc_platform
        [FetchAndUpdateFeed feed_a no_fetch_options always_failing seconds,
         FetchAndUpdateFeed feed_a no_fetch_options fails_twice seconds] one_feed)
     = \<lparr>totalFeeds = 1, successfulUpdates = 1, failedUpdates = 1,
        lastUpdateTime = Some 3000\<rparr>
   \<and> fst (removeFeed one_feed id_a) = RemoveOk
   \<and> totalFeeds (stats (snd (removeFeed one_feed id_a))) = 0
   \<and> Map_size (scheduledFeeds (snd (removeFeed one_feed id_a))) = 0
   \<and> fst (addFeed utc_platform one_feed feed_a every_5_minutes 0)
       = AddOk id_a 300000 record_a
   \<and> totalFeeds (stats (snd (addFeed utc_platform one_feed feed_a every_5_minutes 0))) = 1
   \<and> Map_size (scheduledFeeds (snd (addFeed utc_platform one_feed feed_a every_5_minutes 0)))
       = 1"
proof -
  have a: "stats (run utc_platform
        [FetchAndUpdateFeed feed_a no_fetch_options always_failing seconds,
         FetchAndUpdateFeed feed_a no_fetch_options fails_twice seconds] one_feed)
     = \<lparr>totalFeeds = 1, successfulUpdates = 1, failedUpdates = 1,
        lastUpdateTime = Some 3000\<rparr>"
    by (simp add: scheduler_simps example_simps id_of_feed_a one_feed_fields fetch_loop.simps)
  have b: "fst (removeFeed one_feed id_a) = RemoveOk"
    "Map_size (scheduledFeeds (snd (removeFeed one_feed id_a))) = 0"
    by (simp_all add: scheduler_simps example_simps one_feed_fields)
  have c: "fst (addFeed utc_platform one_feed feed_a every_5_minutes 0)
       = AddOk id_a 300000 record_a"
    "Map_size (scheduledFeeds (snd (addFeed utc_platform one_feed feed_a every_5_minutes 0)))
       = 1"
    by (simp_all add: scheduler_simps example_simps one_feed_fields id_of_feed_a)
  show ?thesis
    using update_counters_never_decrease
        [of one_feed utc_platform
           "[FetchAndUpdateFeed feed_a no_fetch_options always_failing seconds,
             FetchAndUpdateFeed feed_a no_fetch_options fails_twice seconds]"
           id_a feed_a every_5_minutes 0]
      a b c
    by (simp add: one_feed_fields)
qed

text \<open>The claim as stated fails for \<^verbatim>\<open>totalFeeds\<close>: removing the one feed of a scheduler
  takes it from 1 to 0.\<close>

theorem removeFeed_decreases_totalFeeds:
  "totalFeeds (getUpdateStats one_feed) = 1
   \<and> fst (removeFeed one_feed id_a) = RemoveOk
   \<and> totalFeeds (getUpdateStats (run utc_platform [RemoveFeed id_a] one_feed)) = 0"
  by (simp add: scheduler_simps example_simps one_feed_fields)

end
